theory Spec2Isabelle
  imports Complex_Main
begin

section \<open>Edge rendering strategies of aves (visualization/networks/edges.py)\<close>

text \<open>
  The four strategies \<open>PlainEdges\<close>, \<open>WeightedEdges\<close>, \<open>CommunityGradient\<close> and
  \<open>ODGradient\<close> share a two-phase contract; this development embeds the first phase,
  \<open>prepare_data\<close>, of each of them. An instance is a record of its attributes, and
  \<open>prepare_data\<close> takes the instance and returns the updated one. A raised exception is
  the left injection of a sum and carries the instance as the exception leaves it, since
  the attributes assigned before the \<open>raise\<close> stay assigned.

  Coordinates are Python floats in the source; they are real numbers here, so the
  interpolation of \<open>ODGradient\<close> is exact and there is neither NaN nor infinity. Weights
  are carried as real numbers too, but the arithmetic that bins them is left to a
  parameter (see \<open>pd_cut\<close>).
\<close>

subsection \<open>Python values\<close>

type_synonym point = "real \<times> real"

definition vscale :: "point \<Rightarrow> real \<Rightarrow> point" where
  "vscale p c = (fst p * c, snd p * c)"

definition vadd :: "point \<Rightarrow> point \<Rightarrow> point" where
  "vadd p q = (fst p + fst q, snd p + snd q)"

text \<open>
  What \<open>type(x)\<close> can be compared with in the source. \<open>np.ndarray\<close> is the class of
  every NumPy array; \<open>np.array\<close> is the function that builds one and is the type of
  nothing.
\<close>

datatype py_object = Type_list | Type_ndarray | Type_str | Type_NoneType | Function_np_array

definition np_array :: py_object where
  "np_array = Function_np_array"

definition np_ndarray :: py_object where
  "np_ndarray = Type_ndarray"

text \<open>An edge geometry is a Python list of points or a NumPy array with one row per point.\<close>

datatype geometry = PyList "point list" | NdArray "point list"

fun type_of_geometry :: "geometry \<Rightarrow> py_object" where
  "type_of_geometry (PyList ps) = Type_list"
| "type_of_geometry (NdArray ps) = Type_ndarray"

text \<open>\<open>len(points)\<close> of a list and \<open>points.shape[0]\<close> of an array.\<close>

fun n_rows :: "geometry \<Rightarrow> nat" where
  "n_rows (PyList ps) = length ps"
| "n_rows (NdArray ps) = length ps"

fun rows :: "geometry \<Rightarrow> point list" where
  "rows (PyList ps) = ps"
| "rows (NdArray ps) = ps"

datatype error =
    InvalidWeightsReference
  | InvalidWeightsType
  | CutError string
  | LinspaceError
  | IndexError
  | KeyError
  | InhomogeneousShape

text \<open>
  \<open>InvalidWeightsReference\<close> is the \<open>Exception\<close> of line 199 (weights must be a valid edge
  property if str), \<open>InvalidWeightsType\<close> the \<open>ValueError\<close> of line 204 (weights must be
  np.array), \<open>CutError\<close> an exception raised inside \<open>pandas.cut\<close>, \<open>LinspaceError\<close> the
  \<open>ValueError\<close> of \<open>numpy.linspace\<close> for a negative number of samples, \<open>IndexError\<close>
  an out-of-bounds index into a NumPy array, \<open>KeyError\<close> a missing key of
  \<open>edge_properties\<close>, and \<open>InhomogeneousShape\<close> the \<open>ValueError\<close> of \<open>numpy.array\<close> for a list whose
  entries differ in length.
\<close>

subsection \<open>The network\<close>

record edge =
  points :: geometry
  source :: point
  target :: point
  index_pair :: "int \<times> int"

text \<open>
  The \<open>Network\<close> class (aves.models.network) lies outside this file. The strategies read
  its \<open>edge_data\<close> (the list of edges) and the edge properties of the wrapped graph,
  \<open>network.network.edge_properties\<close>; a property is taken with its numeric array
  \<open>.a\<close>. The field \<open>betweenness\<close> stands for the edge centralities that
  \<open>estimate_betweenness\<close> would compute.
\<close>

record network =
  edge_data :: "edge list"
  edge_properties :: "string \<rightharpoonup> real list"
  betweenness :: "real list"

text \<open>
  Modelled from the spec: \<open>Network.estimate_betweenness\<close> (aves.models.network) is missing
  from the sources at hand. The spec has it as the fallback computation of the named
  property "betweenness", after which the property is resolved; so it stores the
  computed centralities under that name.
\<close>

definition estimate_betweenness :: "network \<Rightarrow> network" where
  "estimate_betweenness net =
     net\<lparr>edge_properties := (edge_properties net)(''betweenness'' \<mapsto> betweenness net)\<rparr>"

text \<open>
  Modelled from the spec: \<open>ColoredCurveCollection\<close> (aves.visualization.collections) is
  missing from the sources at hand. The spec has it as a curve collection into which
  geometries accumulate: it starts empty and \<open>add_curve\<close> appends one curve with its
  weight.
\<close>

record colored_curve_collection =
  curves :: "geometry list"
  curve_weights :: "int list"

definition ColoredCurveCollection :: colored_curve_collection where
  "ColoredCurveCollection = \<lparr>curves = [], curve_weights = []\<rparr>"

definition add_curve :: "colored_curve_collection \<Rightarrow> geometry \<Rightarrow> int \<Rightarrow> colored_curve_collection" where
  "add_curve c g w = c\<lparr>curves := curves c @ [g], curve_weights := curve_weights c @ [w]\<rparr>"

subsection \<open>NumPy helpers\<close>

text \<open>
  Modelled from the spec: \<open>numpy.linspace\<close> is a library function, missing from the
  sources at hand. The spec has its result as \<open>n_points\<close> evenly spaced samples for a
  linear interpolation. The definition follows the library's documented computation of
  \<open>linspace(start, stop, num, endpoint=True)\<close>: a negative \<open>num\<close> raises; otherwise the
  samples are \<open>start + i * step\<close> for \<open>i < num\<close>, with \<open>step = (stop - start) / (num - 1)\<close>
  when \<open>num > 1\<close>, and the last sample is then overwritten with \<open>stop\<close>.
\<close>

definition np_linspace :: "real \<Rightarrow> real \<Rightarrow> int \<Rightarrow> error + real list" where
  "np_linspace start stop num =
     (if num < 0 then Inl LinspaceError
      else
        let div' = num - 1;
            delta = stop - start;
            step = (if div' > 0 then delta / of_int div' else delta);
            y = map (\<lambda>i. start + real i * step) [0..<nat num]
        in Inr (if num > 1 then y[nat num - 1 := stop] else y))"

text \<open>
  Indexing a NumPy array with a Python int: a negative index counts from the end, and an
  index outside the array raises \<open>IndexError\<close>.
\<close>

definition np_getitem :: "'a list \<Rightarrow> int \<Rightarrow> error + 'a" where
  "np_getitem xs i =
     (if i < - int (length xs) \<or> int (length xs) \<le> i then Inl IndexError
      else if i < 0 then Inr (xs ! nat (int (length xs) + i))
      else Inr (xs ! nat i))"

subsection \<open>PlainEdges\<close>

record plain_edges =
  pe_network :: network
  pe_lines :: "geometry list option"

definition PlainEdges :: "network \<Rightarrow> plain_edges" where
  "PlainEdges net = \<lparr>pe_network = net, pe_lines = None\<rparr>"

text \<open>
  The loop of lines 75-76 (and 187-188): append the points of every edge to the list
  \<open>lines\<close>.
\<close>

fun collect_lines :: "edge list \<Rightarrow> geometry list \<Rightarrow> geometry list" where
  "collect_lines [] acc = acc"
| "collect_lines (e # es) acc = collect_lines es (acc @ [points e])"

text \<open>
  \<open>np.array(self.lines)\<close>, lines 78 and 190: the list of geometries becomes one array,
  with one entry per edge, when all geometries have the same number of points; NumPy
  raises \<open>ValueError\<close> (inhomogeneous shape) when they differ. The assignment
  \<open>self.lines = np.array(self.lines)\<close> does not happen then, and \<open>self.lines\<close> stays the
  list that the loop has built.
\<close>

definition homogeneous :: "geometry list \<Rightarrow> bool" where
  "homogeneous ls =
     (case ls of [] \<Rightarrow> True | g # rest \<Rightarrow> list_all (\<lambda>h. n_rows h = n_rows g) rest)"

definition np_array_of_lines :: "geometry list \<Rightarrow> error + geometry list" where
  "np_array_of_lines ls = (if homogeneous ls then Inr ls else Inl InhomogeneousShape)"

definition PlainEdges_prepare_data :: "plain_edges \<Rightarrow> (error \<times> plain_edges) + plain_edges" where
  "PlainEdges_prepare_data s =
     (let s1 = s\<lparr>pe_lines := Some (collect_lines (edge_data (pe_network s)) [])\<rparr>
      in case np_array_of_lines (collect_lines (edge_data (pe_network s)) []) of
           Inl err \<Rightarrow> Inl (err, s1)
         | Inr arr \<Rightarrow> Inr (s1\<lparr>pe_lines := Some arr\<rparr>))"

subsection \<open>ODGradient\<close>

record od_gradient =
  od_network :: network
  n_points :: int
  colored_curves :: colored_curve_collection

definition ODGradient :: "network \<Rightarrow> int \<Rightarrow> od_gradient" where
  "ODGradient net n = \<lparr>od_network = net, n_points = n, colored_curves = ColoredCurveCollection\<rparr>"

text \<open>The list comprehension of lines 394-399 and 401-406.\<close>

definition interpolate :: "edge \<Rightarrow> real list \<Rightarrow> geometry" where
  "interpolate e interp =
     NdArray (map (\<lambda>t. vadd (vscale (source e) (1 - t)) (vscale (target e) t)) interp)"

text \<open>The body of the loop of lines 392-408: the curve that is stored for one edge.\<close>

definition od_curve :: "real list \<Rightarrow> edge \<Rightarrow> geometry" where
  "od_curve interp e =
     (if type_of_geometry (points e) = Type_list \<and> n_rows (points e) = 2
        then interpolate e interp
      else if type_of_geometry (points e) = np_array \<and> n_rows (points e) = 2
        then interpolate e interp
      else points e)"

fun od_loop :: "real list \<Rightarrow> edge list \<Rightarrow> colored_curve_collection \<Rightarrow> colored_curve_collection" where
  "od_loop interp [] c = c"
| "od_loop interp (e # es) c = od_loop interp es (add_curve c (od_curve interp e) 1)"

definition ODGradient_prepare_data :: "od_gradient \<Rightarrow> (error \<times> od_gradient) + od_gradient" where
  "ODGradient_prepare_data s =
     (case np_linspace 0 1 (n_points s) of
        Inl err \<Rightarrow> Inl (err, s)
      | Inr interp \<Rightarrow>
          Inr (s\<lparr>colored_curves :=
                  od_loop interp (edge_data (od_network s)) (colored_curves s)\<rparr>))"

subsection \<open>WeightedEdges\<close>

text \<open>
  What the constructor can be given as \<open>weights\<close>: \<open>None\<close>, the name of an edge property,
  a numeric NumPy array, a NumPy array of strings, or a Python list of numbers.
\<close>

datatype weights_value =
    W_None
  | W_str string
  | W_ndarray "real list"
  | W_ndarray_str "string list"
  | W_list "real list"

fun type_of_weights :: "weights_value \<Rightarrow> py_object" where
  "type_of_weights W_None = Type_NoneType"
| "type_of_weights (W_str name) = Type_str"
| "type_of_weights (W_ndarray x) = Type_ndarray"
| "type_of_weights (W_ndarray_str x) = Type_ndarray"
| "type_of_weights (W_list x) = Type_list"

text \<open>
  Modelled from the spec: \<open>pandas.cut\<close> is a library function, missing from the sources at
  hand. The spec has the call \<open>pd.cut(weights, k, labels=False, retbins=True)\<close> as the
  partition of the weight range into \<open>k\<close> value bins, recording the bin edges and the bin
  index of each edge. The library computes the edges and the indices of a non-empty
  numeric array in 64-bit floating point; that computation is not modelled and is a
  parameter of \<open>prepare_data\<close>: \<open>cutf x k\<close> is what the library gives for the values \<open>x\<close> and
  \<open>k\<close> bins, either the message of the exception it raises or the bin index of every
  value (\<open>None\<close> for a value without a bin) with the bin edges. What does not depend on
  the arithmetic follows the library's documented input checks: an input that is not a
  one-dimensional array (\<open>None\<close>, a string) is refused, fewer than one bin and an empty
  array are refused, and an array of strings makes the library raise.
\<close>

type_synonym numeric_cut = "real list \<Rightarrow> int \<Rightarrow> string + (nat option list \<times> real list)"

fun pd_cut :: "numeric_cut \<Rightarrow> weights_value \<Rightarrow> int \<Rightarrow> error + (nat option list \<times> real list)" where
  "pd_cut cutf W_None nbins = Inl (CutError ''Input array must be 1 dimensional'')"
| "pd_cut cutf (W_str name) nbins = Inl (CutError ''Input array must be 1 dimensional'')"
| "pd_cut cutf (W_ndarray x) nbins =
     (if nbins < 1 then Inl (CutError ''bins should be a positive integer'')
      else if x = [] then Inl (CutError ''Cannot cut empty array'')
      else (case cutf x nbins of Inl msg \<Rightarrow> Inl (CutError msg) | Inr r \<Rightarrow> Inr r))"
| "pd_cut cutf (W_list x) nbins =
     (if nbins < 1 then Inl (CutError ''bins should be a positive integer'')
      else if x = [] then Inl (CutError ''Cannot cut empty array'')
      else (case cutf x nbins of Inl msg \<Rightarrow> Inl (CutError msg) | Inr r \<Rightarrow> Inr r))"
| "pd_cut cutf (W_ndarray_str x) nbins =
     (if nbins < 1 then Inl (CutError ''bins should be a positive integer'')
      else if x = [] then Inl (CutError ''Cannot cut empty array'')
      else Inl (CutError ''TypeError''))"

text \<open>
  \<open>bins\<close> and \<open>lines\<close> are \<open>None\<close> after the constructor; \<open>line_groups\<close> is not an
  attribute before \<open>prepare_data\<close> assigns it, which is \<open>None\<close> here as well. A group of
  \<open>None\<close> in \<open>line_groups\<close> is an edge without a bin.
\<close>

record weighted_edges =
  we_network :: network
  we_k :: int
  we_bins :: "real list option"
  we_weights :: weights_value
  we_lines :: "geometry list option"
  we_line_groups :: "nat option list option"

definition WeightedEdges :: "network \<Rightarrow> weights_value \<Rightarrow> int \<Rightarrow> weighted_edges" where
  "WeightedEdges net weights k =
     \<lparr>we_network = net, we_k = k, we_bins = None, we_weights = weights,
      we_lines = None, we_line_groups = None\<rparr>"

text \<open>\<open>np.array(self.network.network.edge_properties[weights].a)\<close>, line 201.\<close>

definition lookup_property :: "network \<Rightarrow> string \<Rightarrow> error + (network \<times> weights_value)" where
  "lookup_property net name =
     (case edge_properties net name of
        None \<Rightarrow> Inl KeyError
      | Some a \<Rightarrow> Inr (net, W_ndarray a))"

text \<open>Lines 192-201: the weights as resolved, with the network as the resolution leaves it.\<close>

definition resolve_weights :: "network \<Rightarrow> weights_value \<Rightarrow> error + (network \<times> weights_value)" where
  "resolve_weights net weights =
     (case weights of
        W_str name \<Rightarrow>
          (if name \<notin> dom (edge_properties net)
           then (if name = ''betweenness''
                 then lookup_property (estimate_betweenness net) name
                 else Inl InvalidWeightsReference)
           else lookup_property net name)
      | _ \<Rightarrow> Inr (net, weights))"

definition WeightedEdges_prepare_data ::
  "numeric_cut \<Rightarrow> weighted_edges \<Rightarrow> (error \<times> weighted_edges) + weighted_edges" where
  "WeightedEdges_prepare_data cutf s =
     (let s1 = s\<lparr>we_lines := Some (collect_lines (edge_data (we_network s)) [])\<rparr>
      in case np_array_of_lines (collect_lines (edge_data (we_network s)) []) of
           Inl err \<Rightarrow> Inl (err, s1)
         | Inr arr \<Rightarrow>
             (case resolve_weights (we_network s1) (we_weights s1) of
                Inl err \<Rightarrow> Inl (err, s1\<lparr>we_lines := Some arr\<rparr>)
              | Inr (net, weights) \<Rightarrow>
                  let s2 = s1\<lparr>we_lines := Some arr, we_network := net\<rparr>
                  in if weights \<noteq> W_None \<and> type_of_weights weights \<notin> {np_array, np_ndarray}
                     then Inl (InvalidWeightsType, s2)
                     else (case pd_cut cutf weights (we_k s2) of
                             Inl err \<Rightarrow> Inl (err, s2)
                           | Inr (groups, bins) \<Rightarrow>
                               Inr (s2\<lparr>we_bins := Some bins, we_line_groups := Some groups\<rparr>))))"

subsection \<open>CommunityGradient\<close>

text \<open>
  \<open>community_links\<close> is a \<open>defaultdict(ColoredCurveCollection)\<close>: reading a key that is
  missing stores a new, empty collection under it. (\<open>community_ids\<close> only serves
  \<open>render\<close> and is left out.)
\<close>

record 'c community_gradient =
  cg_network :: network
  node_communities :: "'c list"
  community_links :: "'c \<times> 'c \<rightharpoonup> colored_curve_collection"

definition CommunityGradient :: "network \<Rightarrow> 'c list \<Rightarrow> 'c community_gradient" where
  "CommunityGradient net communities =
     \<lparr>cg_network = net, node_communities = communities, community_links = Map.empty\<rparr>"

definition defaultdict_get ::
  "('c \<times> 'c \<rightharpoonup> colored_curve_collection) \<Rightarrow> 'c \<times> 'c \<Rightarrow> colored_curve_collection" where
  "defaultdict_get m key = (case m key of None \<Rightarrow> ColoredCurveCollection | Some c \<Rightarrow> c)"

text \<open>
  The loop of lines 308-315. An index outside \<open>node_communities\<close> raises and leaves the
  curves that were added before it.
\<close>

fun cg_loop ::
  "'c list \<Rightarrow> edge list \<Rightarrow> ('c \<times> 'c \<rightharpoonup> colored_curve_collection) \<Rightarrow>
     (error \<times> ('c \<times> 'c \<rightharpoonup> colored_curve_collection)) + ('c \<times> 'c \<rightharpoonup> colored_curve_collection)" where
  "cg_loop communities [] m = Inr m"
| "cg_loop communities (e # es) m =
     (case np_getitem communities (fst (index_pair e)) of
        Inl err \<Rightarrow> Inl (err, m)
      | Inr a \<Rightarrow>
          (case np_getitem communities (snd (index_pair e)) of
             Inl err \<Rightarrow> Inl (err, m)
           | Inr b \<Rightarrow>
               cg_loop communities es
                 (m((a, b) \<mapsto> add_curve (defaultdict_get m (a, b)) (points e) 1))))"

definition CommunityGradient_prepare_data ::
  "'c community_gradient \<Rightarrow> (error \<times> 'c community_gradient) + 'c community_gradient" where
  "CommunityGradient_prepare_data s =
     (case cg_loop (node_communities s) (edge_data (cg_network s)) (community_links s) of
        Inl (err, m) \<Rightarrow> Inl (err, s\<lparr>community_links := m\<rparr>)
      | Inr m \<Rightarrow> Inr (s\<lparr>community_links := m\<rparr>))"

subsection \<open>Outcomes of a call and example inputs\<close>

text \<open>The exception a call raised, if any, and the instance as the call leaves it.\<close>

definition raised :: "(error \<times> 's) + 's \<Rightarrow> error option" where
  "raised r = (case r of Inl (err, s) \<Rightarrow> Some err | Inr s \<Rightarrow> None)"

definition state_after :: "(error \<times> 's) + 's \<Rightarrow> 's" where
  "state_after r = (case r of Inl (err, s) \<Rightarrow> s | Inr s \<Rightarrow> s)"

text \<open>
  The edges on which \<open>ODGradient.prepare_data\<close> takes one of its two interpolating
  branches (the conditions of lines 393 and 400).
\<close>

definition resamples :: "edge \<Rightarrow> bool" where
  "resamples e \<longleftrightarrow>
     (type_of_geometry (points e) = Type_list \<and> n_rows (points e) = 2) \<or>
     (type_of_geometry (points e) = np_array \<and> n_rows (points e) = 2)"

definition net0 :: network where
  "net0 = \<lparr>edge_data = [], edge_properties = Map.empty, betweenness = []\<rparr>"

definition straight_list_edge :: edge where
  "straight_list_edge =
     \<lparr>points = PyList [(0, 0), (10, 0)], source = (0, 0), target = (10, 0), index_pair = (0, 1)\<rparr>"

definition straight_array_edge :: edge where
  "straight_array_edge =
     \<lparr>points = NdArray [(0, 0), (10, 0)], source = (0, 0), target = (10, 0), index_pair = (0, 1)\<rparr>"

text \<open>
  Two calls in a row on the same instance; the second call is made only when the first
  returned.
\<close>

definition twice :: "('s \<Rightarrow> (error \<times> 's) + 's) \<Rightarrow> 's \<Rightarrow> (error \<times> 's) + 's" where
  "twice f s = (case f s of Inl x \<Rightarrow> Inl x | Inr s' \<Rightarrow> f s')"

text \<open>
  A call made with other weights, put back under the weights of the instance: the way
  to say that a named property behaves as its array given directly.
\<close>

definition with_weights ::
  "weights_value \<Rightarrow> (error \<times> weighted_edges) + weighted_edges \<Rightarrow> (error \<times> weighted_edges) + weighted_edges" where
  "with_weights w r =
     (case r of Inl (err, s) \<Rightarrow> Inl (err, s\<lparr>we_weights := w\<rparr>) | Inr s \<Rightarrow> Inr (s\<lparr>we_weights := w\<rparr>))"

text \<open>
  The ordered pair (source community, target community) that lines 309-312 compute for
  an edge, when both indices lie inside \<open>node_communities\<close>.
\<close>

definition community_pair :: "'c list \<Rightarrow> edge \<Rightarrow> ('c \<times> 'c) option" where
  "community_pair communities e =
     (case np_getitem communities (fst (index_pair e)) of
        Inl err \<Rightarrow> None
      | Inr a \<Rightarrow>
          (case np_getitem communities (snd (index_pair e)) of
             Inl err \<Rightarrow> None
           | Inr b \<Rightarrow> Some (a, b)))"

definition ab_edge :: edge where
  "ab_edge = \<lparr>points = PyList [(0, 0), (1, 1)], source = (0, 0), target = (1, 1), index_pair = (0, 1)\<rparr>"

definition ba_edge :: edge where
  "ba_edge = \<lparr>points = PyList [(1, 1), (0, 0)], source = (1, 1), target = (0, 0), index_pair = (1, 0)\<rparr>"

text \<open>
  A network whose two edges differ in their number of points, and an edge whose target
  index lies outside a list of two communities.
\<close>

definition curved_edge :: edge where
  "curved_edge =
     \<lparr>points = PyList [(0, 0), (5, 1), (10, 0)], source = (0, 0), target = (10, 0),
      index_pair = (0, 1)\<rparr>"

definition ragged_net :: network where
  "ragged_net = net0\<lparr>edge_data := [straight_list_edge, curved_edge]\<rparr>"

definition bad_index_edge :: edge where
  "bad_index_edge =
     \<lparr>points = PyList [(0, 0), (1, 1)], source = (0, 0), target = (1, 1), index_pair = (0, 5)\<rparr>"

text \<open>
  An instance of the parameter \<open>cutf\<close> for the closed examples below, which hold for
  every instance: all values in the first bin, between the edges 0 and 1.
\<close>

definition example_cut :: numeric_cut where
  "example_cut x nbins = Inr (map (\<lambda>v. Some 0) x, [0, 1])"

subsection \<open>Lemmas on the helpers\<close>

lemma collect_lines_eq: "collect_lines es acc = acc @ map points es"
  by (induction es arbitrary: acc) simp_all

lemma od_loop_curves: "curves (od_loop interp es c) = curves c @ map (od_curve interp) es"
  by (induction es arbitrary: c) (simp_all add: add_curve_def)

lemma np_linspace_length: "0 \<le> num \<Longrightarrow> np_linspace a b num = Inr ts \<Longrightarrow> length ts = nat num"
  by (auto simp: np_linspace_def Let_def split: if_splits)

lemma np_linspace_hd_last:
  assumes "2 \<le> num"
  shows "\<exists>ts. np_linspace a b num = Inr ts \<and> ts \<noteq> [] \<and> hd ts = a \<and> last ts = b"
proof -
  let ?y = "map (\<lambda>i. a + real i * ((b - a) / of_int (num - 1))) [0..<nat num]"
  let ?ts = "?y[nat num - 1 := b]"
  have eq: "np_linspace a b num = Inr ?ts"
    using assms by (simp add: np_linspace_def Let_def)
  have len: "length ?ts = nat num" by simp
  have ne: "?ts \<noteq> []" using assms by auto
  have "hd ?ts = ?ts ! 0" using ne by (simp add: hd_conv_nth)
  also have "\<dots> = a" using assms by (simp add: nth_list_update)
  finally have h: "hd ?ts = a" .
  have "last ?ts = ?ts ! (nat num - 1)" using ne len by (simp add: last_conv_nth)
  also have "\<dots> = b" using assms by simp
  finally have l: "last ?ts = b" .
  show ?thesis using eq ne h l by blast
qed

lemma interpolate_ends:
  assumes "ts \<noteq> []" "hd ts = 0" "last ts = 1"
  shows "rows (interpolate e ts) \<noteq> [] \<and> hd (rows (interpolate e ts)) = source e \<and>
         last (rows (interpolate e ts)) = target e"
  using assms by (simp add: interpolate_def hd_map last_map vadd_def vscale_def)

subsection \<open>ODGradient: the resampled curves\<close>

text \<open>
  Claim C10. With \<open>n_points \<ge> 2\<close>, \<open>ODGradient.prepare_data\<close> returns, appends one
  curve per edge, and every curve that it produces by resampling a straight 2-point edge
  begins at the source coordinates of the edge and ends at its target coordinates.
\<close>

theorem od_resampled_endpoints:
  assumes "2 \<le> n_points s"
  shows "\<exists>s'. ODGradient_prepare_data s = Inr s' \<and>
     length (curves (colored_curves s')) =
       length (curves (colored_curves s)) + length (edge_data (od_network s)) \<and>
     (\<forall>i < length (edge_data (od_network s)).
        resamples (edge_data (od_network s) ! i) \<longrightarrow>
          rows (curves (colored_curves s') ! (length (curves (colored_curves s)) + i)) \<noteq> [] \<and>
          hd (rows (curves (colored_curves s') ! (length (curves (colored_curves s)) + i))) =
            source (edge_data (od_network s) ! i) \<and>
          last (rows (curves (colored_curves s') ! (length (curves (colored_curves s)) + i))) =
            target (edge_data (od_network s) ! i))"
proof -
  obtain ts where ts: "np_linspace 0 1 (n_points s) = Inr ts" "ts \<noteq> []" "hd ts = 0" "last ts = 1"
    using np_linspace_hd_last [OF assms, of 0 1] by blast
  let ?s' = "s\<lparr>colored_curves := od_loop ts (edge_data (od_network s)) (colored_curves s)\<rparr>"
  have run: "ODGradient_prepare_data s = Inr ?s'"
    by (simp add: ODGradient_prepare_data_def ts(1))
  have cur: "curves (colored_curves ?s') =
      curves (colored_curves s) @ map (od_curve ts) (edge_data (od_network s))"
    by (simp add: od_loop_curves)
  have "\<And>e. resamples e \<Longrightarrow> od_curve ts e = interpolate e ts"
    by (auto simp: resamples_def od_curve_def)
  then have ends: "\<And>e. resamples e \<Longrightarrow> rows (od_curve ts e) \<noteq> [] \<and>
      hd (rows (od_curve ts e)) = source e \<and> last (rows (od_curve ts e)) = target e"
    using interpolate_ends [OF ts(2) ts(3) ts(4)] by simp
  show ?thesis
    using run cur ends by (auto simp: nth_append)
qed

theorem od_resampled_endpoints_witness:
  "2 \<le> n_points (ODGradient (net0\<lparr>edge_data := [straight_list_edge]\<rparr>) 3) \<and>
   resamples straight_list_edge \<and>
   (\<exists>s'. ODGradient_prepare_data (ODGradient (net0\<lparr>edge_data := [straight_list_edge]\<rparr>) 3) = Inr s' \<and>
      length (curves (colored_curves s')) = 1 \<and>
      hd (rows (curves (colored_curves s') ! 0)) = (0, 0) \<and>
      last (rows (curves (colored_curves s') ! 0)) = (10, 0))"
proof -
  have n: "2 \<le> n_points (ODGradient (net0\<lparr>edge_data := [straight_list_edge]\<rparr>) 3)"
    by (simp add: ODGradient_def)
  have r: "resamples straight_list_edge"
    by (simp add: resamples_def straight_list_edge_def)
  show ?thesis
    using od_resampled_endpoints [OF n] n r
    by (auto simp: ODGradient_def ColoredCurveCollection_def straight_list_edge_def)
qed

subsection \<open>ODGradient: which edges are resampled\<close>

lemma linspace3: "np_linspace 0 1 3 = Inr [0, 1/2, 1]"
  by (simp add: np_linspace_def Let_def upt_rec numeral_eq_Suc)

lemma od_curve_list_segment:
  "type_of_geometry (points e) = Type_list \<Longrightarrow> n_rows (points e) = 2 \<Longrightarrow>
     od_curve interp e = interpolate e interp"
  by (simp add: od_curve_def)

lemma od_curve_ndarray:
  "type_of_geometry (points e) = Type_ndarray \<Longrightarrow> od_curve interp e = points e"
  by (simp add: od_curve_def np_array_def)

lemma od_curve_curved: "2 < n_rows (points e) \<Longrightarrow> od_curve interp e = points e"
  by (simp add: od_curve_def)

text \<open>
  Claim C1. A straight edge given as a Python list of its two endpoints (0,0) and (10,0)
  is resampled, with \<open>n_points = 3\<close>, into (0,0), (5,0), (10,0). The same 2-point
  segment given as a NumPy array is stored as it is, with its two points: the test of
  line 400 compares the type with the function \<open>np.array\<close>, so the second interpolating
  branch is never taken.
\<close>

theorem od_array_segment_not_resampled:
  "ODGradient_prepare_data (ODGradient (net0\<lparr>edge_data := [straight_list_edge]\<rparr>) 3) =
     Inr ((ODGradient (net0\<lparr>edge_data := [straight_list_edge]\<rparr>) 3)
          \<lparr>colored_curves := \<lparr>curves = [NdArray [(0, 0), (5, 0), (10, 0)]], curve_weights = [1]\<rparr>\<rparr>)
   \<and> ODGradient_prepare_data (ODGradient (net0\<lparr>edge_data := [straight_array_edge]\<rparr>) 3) =
     Inr ((ODGradient (net0\<lparr>edge_data := [straight_array_edge]\<rparr>) 3)
          \<lparr>colored_curves := \<lparr>curves = [NdArray [(0, 0), (10, 0)]], curve_weights = [1]\<rparr>\<rparr>)"
  by (simp add: ODGradient_prepare_data_def ODGradient_def linspace3 net0_def
      straight_list_edge_def straight_array_edge_def od_curve_def interpolate_def
      vadd_def vscale_def add_curve_def ColoredCurveCollection_def np_array_def)

subsection \<open>The array of lines\<close>

lemma np_array_of_lines_cases:
  "np_array_of_lines ls = (if homogeneous ls then Inr ls else Inl InhomogeneousShape)"
  by (simp add: np_array_of_lines_def)

lemma homogeneous_net0: "homogeneous (map points (edge_data net0))"
  by (simp add: homogeneous_def net0_def)

lemma homogeneous_single: "homogeneous [g]"
  by (simp add: homogeneous_def)

lemma not_homogeneous_ragged: "\<not> homogeneous (map points (edge_data ragged_net))"
  by (simp add: homogeneous_def ragged_net_def net0_def straight_list_edge_def curved_edge_def)

lemma PlainEdges_prepare_data_cases:
  "PlainEdges_prepare_data s =
     (if homogeneous (map points (edge_data (pe_network s)))
      then Inr (s\<lparr>pe_lines := Some (map points (edge_data (pe_network s)))\<rparr>)
      else Inl (InhomogeneousShape, s\<lparr>pe_lines := Some (map points (edge_data (pe_network s)))\<rparr>))"
  by (simp add: PlainEdges_prepare_data_def Let_def collect_lines_eq np_array_of_lines_def)

lemma PlainEdges_lines_after:
  "pe_lines (state_after (PlainEdges_prepare_data s)) = Some (map points (edge_data (pe_network s)))"
  by (simp add: PlainEdges_prepare_data_cases state_after_def)

lemma WeightedEdges_prepare_data_ragged:
  assumes "\<not> homogeneous (map points (edge_data (we_network s)))"
  shows "WeightedEdges_prepare_data cutf s =
     Inl (InhomogeneousShape, s\<lparr>we_lines := Some (map points (edge_data (we_network s)))\<rparr>)"
  using assms
  by (simp add: WeightedEdges_prepare_data_def Let_def collect_lines_eq np_array_of_lines_def)

lemma WeightedEdges_prepare_data_stacked:
  assumes "homogeneous (map points (edge_data (we_network s)))"
  shows "WeightedEdges_prepare_data cutf s =
     (case resolve_weights (we_network s) (we_weights s) of
        Inl err \<Rightarrow> Inl (err, s\<lparr>we_lines := Some (map points (edge_data (we_network s)))\<rparr>)
      | Inr (net, weights) \<Rightarrow>
          if weights \<noteq> W_None \<and> type_of_weights weights \<noteq> Type_ndarray
          then Inl (InvalidWeightsType,
                    s\<lparr>we_lines := Some (map points (edge_data (we_network s))), we_network := net\<rparr>)
          else (case pd_cut cutf weights (we_k s) of
                  Inl err \<Rightarrow>
                    Inl (err, s\<lparr>we_lines := Some (map points (edge_data (we_network s))),
                               we_network := net\<rparr>)
                | Inr (groups, bins) \<Rightarrow>
                    Inr (s\<lparr>we_lines := Some (map points (edge_data (we_network s))),
                           we_network := net, we_bins := Some bins,
                           we_line_groups := Some groups\<rparr>)))"
proof -
  have t: "\<And>w. type_of_weights w \<notin> {np_array, np_ndarray} \<longleftrightarrow> type_of_weights w \<noteq> Type_ndarray"
  proof -
    fix w show "type_of_weights w \<notin> {np_array, np_ndarray} \<longleftrightarrow> type_of_weights w \<noteq> Type_ndarray"
      by (cases w) (simp_all add: np_array_def np_ndarray_def)
  qed
  show ?thesis
    unfolding WeightedEdges_prepare_data_def Let_def t
    using assms
    by (simp add: collect_lines_eq np_array_of_lines_def split: sum.splits prod.splits)
qed

subsection \<open>WeightedEdges: resolution and validation of the weights\<close>

lemma resolve_weights_not_str:
  "type_of_weights w \<noteq> Type_str \<Longrightarrow> resolve_weights net w = Inr (net, w)"
  by (cases w) (simp_all add: resolve_weights_def)

lemma resolve_weights_str_ndarray:
  "resolve_weights net (W_str name) = Inr (net', w) \<Longrightarrow> type_of_weights w = Type_ndarray"
  by (auto simp: resolve_weights_def lookup_property_def split: if_splits option.splits)

lemma resolve_weights_error:
  "resolve_weights net w = Inl err \<Longrightarrow> err = InvalidWeightsReference"
  by (cases w) (auto simp: resolve_weights_def lookup_property_def estimate_betweenness_def
      split: if_splits option.splits)

lemma resolve_weights_again:
  assumes "resolve_weights net w = Inr (net', w')"
  shows "resolve_weights net' w = Inr (net', w') \<and> edge_data net' = edge_data net"
  using assms
  by (cases w)
     (auto simp: resolve_weights_def lookup_property_def estimate_betweenness_def dom_def
       split: if_splits option.splits)

lemma pd_cut_error: "pd_cut cutf w n = Inl err \<Longrightarrow> \<exists>msg. err = CutError msg"
  by (cases w) (auto split: sum.splits if_splits)

lemma WeightedEdges_prepare_data_Inl:
  assumes "WeightedEdges_prepare_data cutf s = Inl (err, s')"
  shows "we_bins s' = we_bins s \<and> we_line_groups s' = we_line_groups s \<and>
         we_k s' = we_k s \<and> we_weights s' = we_weights s \<and>
         we_lines s' = Some (map points (edge_data (we_network s)))"
proof (cases "homogeneous (map points (edge_data (we_network s)))")
  case False
  then show ?thesis
    using assms by (auto simp: WeightedEdges_prepare_data_ragged)
next
  case True
  then show ?thesis
    using assms
    by (auto simp: WeightedEdges_prepare_data_stacked split: sum.splits prod.splits if_splits)
qed

lemma WeightedEdges_prepare_data_validation:
  assumes "WeightedEdges_prepare_data cutf s = Inl (err, s')"
    and "err = InhomogeneousShape \<or> err = InvalidWeightsReference \<or> err = InvalidWeightsType"
  shows "s' = s\<lparr>we_lines := Some (map points (edge_data (we_network s)))\<rparr>"
proof (cases "homogeneous (map points (edge_data (we_network s)))")
  case False
  then show ?thesis
    using assms(1) by (auto simp: WeightedEdges_prepare_data_ragged)
next
  case h: True
  show ?thesis
  proof (cases "resolve_weights (we_network s) (we_weights s)")
    case (Inl e)
    then show ?thesis
      using assms(1) h by (simp add: WeightedEdges_prepare_data_stacked)
  next
    case (Inr p)
    obtain net w where p: "p = (net, w)" by (cases p)
    show ?thesis
    proof (cases "w \<noteq> W_None \<and> type_of_weights w \<noteq> Type_ndarray")
      case True
      then have "\<forall>name. we_weights s \<noteq> W_str name"
        using Inr p resolve_weights_str_ndarray by metis
      then have "type_of_weights (we_weights s) \<noteq> Type_str"
        by (cases "we_weights s") simp_all
      then have "net = we_network s"
        using Inr p resolve_weights_not_str [of "we_weights s" "we_network s"] by simp
      then show ?thesis
        using assms(1) h Inr p True by (simp add: WeightedEdges_prepare_data_stacked)
    next
      case False
      then have "\<exists>e. pd_cut cutf w (we_k s) = Inl e \<and> err = e"
        using assms(1) h Inr p
        by (auto simp: WeightedEdges_prepare_data_stacked split: sum.splits prod.splits)
      then show ?thesis
        using assms(2) pd_cut_error by blast
    qed
  qed
qed

lemma WeightedEdges_lines_after:
  "we_lines (state_after (WeightedEdges_prepare_data cutf w)) =
     Some (map points (edge_data (we_network w)))"
proof (cases "homogeneous (map points (edge_data (we_network w)))")
  case False
  then show ?thesis
    by (simp add: WeightedEdges_prepare_data_ragged state_after_def)
next
  case True
  then show ?thesis
    by (auto simp: WeightedEdges_prepare_data_stacked state_after_def
        split: sum.splits prod.splits)
qed

text \<open>
  Claim C5. With \<open>weights=None\<close> the call never returns: when the lines can be made
  into an array, both validation checks are passed and \<open>None\<close> itself is handed to
  \<open>pandas.cut\<close>, which raises; otherwise the conversion of the lines has raised before.
\<close>

theorem weights_none_reaches_cut:
  "WeightedEdges_prepare_data cutf (WeightedEdges net W_None k) =
     Inl (if homogeneous (map points (edge_data net))
          then CutError ''Input array must be 1 dimensional''
          else InhomogeneousShape,
          (WeightedEdges net W_None k)\<lparr>we_lines := Some (map points (edge_data net))\<rparr>)"
proof (cases "homogeneous (map points (edge_data net))")
  case True
  then have "homogeneous (map points (edge_data (we_network (WeightedEdges net W_None k))))"
    by (simp add: WeightedEdges_def)
  then show ?thesis
    using True
    by (simp add: WeightedEdges_prepare_data_stacked) (simp add: WeightedEdges_def resolve_weights_def)
next
  case False
  then have "\<not> homogeneous (map points (edge_data (we_network (WeightedEdges net W_None k))))"
    by (simp add: WeightedEdges_def)
  then show ?thesis
    using False
    by (simp add: WeightedEdges_prepare_data_ragged) (simp add: WeightedEdges_def)
qed

text \<open>
  Claim C8, as stated, fails on a network whose geometries differ in length: the
  conversion of the lines (line 190) raises before the name is looked at, and the absent
  property "foo" does not raise \<open>InvalidWeightsReference\<close>.
\<close>

theorem named_weights_after_ragged_lines:
  "edge_properties ragged_net ''foo'' = None
   \<and> raised (WeightedEdges_prepare_data example_cut (WeightedEdges ragged_net (W_str ''foo'') 2))
       = Some InhomogeneousShape"
proof -
  have "\<not> homogeneous (map points (edge_data (we_network
      (WeightedEdges ragged_net (W_str ''foo'') 2))))"
    using not_homogeneous_ragged by (simp add: WeightedEdges_def)
  then show ?thesis
    by (simp add: WeightedEdges_prepare_data_ragged raised_def ragged_net_def net0_def)
qed

text \<open>
  Claim C8, amended. With weights given as a property name, once the lines have been made
  into an array: a property that exists is looked up, and the call goes on as with its
  array; the absent property "betweenness" is computed by \<open>estimate_betweenness\<close> and the
  call goes on with the computed array on the updated network; any other absent name
  raises \<open>InvalidWeightsReference\<close>. When the lines cannot be made into an array, the call
  has raised before the weights are looked at.
\<close>

theorem named_weights_resolution:
  assumes "we_weights s = W_str name"
  shows "(homogeneous (map points (edge_data (we_network s))) \<and>
          edge_properties (we_network s) name = Some a \<longrightarrow>
            WeightedEdges_prepare_data cutf s =
              with_weights (W_str name)
                (WeightedEdges_prepare_data cutf (s\<lparr>we_weights := W_ndarray a\<rparr>)))
       \<and> (homogeneous (map points (edge_data (we_network s))) \<and>
          edge_properties (we_network s) name = None \<and> name = ''betweenness'' \<longrightarrow>
            WeightedEdges_prepare_data cutf s =
              with_weights (W_str name) (WeightedEdges_prepare_data cutf
                (s\<lparr>we_network := estimate_betweenness (we_network s),
                   we_weights := W_ndarray (betweenness (we_network s))\<rparr>)))
       \<and> (homogeneous (map points (edge_data (we_network s))) \<and>
          edge_properties (we_network s) name = None \<and> name \<noteq> ''betweenness'' \<longrightarrow>
            WeightedEdges_prepare_data cutf s =
              Inl (InvalidWeightsReference,
                   s\<lparr>we_lines := Some (map points (edge_data (we_network s)))\<rparr>))
       \<and> (\<not> homogeneous (map points (edge_data (we_network s))) \<longrightarrow>
            WeightedEdges_prepare_data cutf s =
              Inl (InhomogeneousShape,
                   s\<lparr>we_lines := Some (map points (edge_data (we_network s)))\<rparr>))"
proof (intro conjI impI)
  assume h: "homogeneous (map points (edge_data (we_network s))) \<and>
      edge_properties (we_network s) name = Some a"
  then have h': "homogeneous (map points (edge_data (we_network (s\<lparr>we_weights := W_ndarray a\<rparr>))))"
    by simp
  show "WeightedEdges_prepare_data cutf s =
      with_weights (W_str name) (WeightedEdges_prepare_data cutf (s\<lparr>we_weights := W_ndarray a\<rparr>))"
    using assms h
    unfolding WeightedEdges_prepare_data_stacked [OF h'] WeightedEdges_prepare_data_stacked [OF conjunct1 [OF h]]
    by (auto simp: resolve_weights_def lookup_property_def with_weights_def dom_def
        split: sum.splits prod.splits)
next
  assume h: "homogeneous (map points (edge_data (we_network s))) \<and>
      edge_properties (we_network s) name = None \<and> name = ''betweenness''"
  let ?s' = "s\<lparr>we_network := estimate_betweenness (we_network s),
                we_weights := W_ndarray (betweenness (we_network s))\<rparr>"
  have h': "homogeneous (map points (edge_data (we_network ?s')))"
    using h by (simp add: estimate_betweenness_def)
  show "WeightedEdges_prepare_data cutf s = with_weights (W_str name) (WeightedEdges_prepare_data cutf ?s')"
    using assms h
    unfolding WeightedEdges_prepare_data_stacked [OF h'] WeightedEdges_prepare_data_stacked [OF conjunct1 [OF h]]
    by (auto simp: resolve_weights_def lookup_property_def with_weights_def dom_def
        estimate_betweenness_def split: sum.splits prod.splits)
next
  assume h: "homogeneous (map points (edge_data (we_network s))) \<and>
      edge_properties (we_network s) name = None \<and> name \<noteq> ''betweenness''"
  show "WeightedEdges_prepare_data cutf s =
      Inl (InvalidWeightsReference, s\<lparr>we_lines := Some (map points (edge_data (we_network s)))\<rparr>)"
    using assms h
    unfolding WeightedEdges_prepare_data_stacked [OF conjunct1 [OF h]]
    by (auto simp: resolve_weights_def dom_def)
next
  assume "\<not> homogeneous (map points (edge_data (we_network s)))"
  then show "WeightedEdges_prepare_data cutf s =
      Inl (InhomogeneousShape, s\<lparr>we_lines := Some (map points (edge_data (we_network s)))\<rparr>)"
    by (rule WeightedEdges_prepare_data_ragged)
qed

theorem named_weights_resolution_witness:
  "WeightedEdges_prepare_data example_cut
      (WeightedEdges (net0\<lparr>edge_properties := [''weight'' \<mapsto> [1, 2]]\<rparr>) (W_str ''weight'') 2) =
     with_weights (W_str ''weight'') (WeightedEdges_prepare_data example_cut
       ((WeightedEdges (net0\<lparr>edge_properties := [''weight'' \<mapsto> [1, 2]]\<rparr>) (W_str ''weight'') 2)
          \<lparr>we_weights := W_ndarray [1, 2]\<rparr>))
   \<and> WeightedEdges_prepare_data example_cut (WeightedEdges net0 (W_str ''betweenness'') 2) =
     with_weights (W_str ''betweenness'') (WeightedEdges_prepare_data example_cut
       ((WeightedEdges net0 (W_str ''betweenness'') 2)
          \<lparr>we_network := estimate_betweenness net0, we_weights := W_ndarray []\<rparr>))
   \<and> WeightedEdges_prepare_data example_cut (WeightedEdges net0 (W_str ''foo'') 2) =
     Inl (InvalidWeightsReference, (WeightedEdges net0 (W_str ''foo'') 2)\<lparr>we_lines := Some []\<rparr>)
   \<and> WeightedEdges_prepare_data example_cut (WeightedEdges ragged_net (W_str ''foo'') 2) =
     Inl (InhomogeneousShape,
          (WeightedEdges ragged_net (W_str ''foo'') 2)
            \<lparr>we_lines := Some (map points (edge_data ragged_net))\<rparr>)"
proof -
  let ?net = "net0\<lparr>edge_properties := [''weight'' \<mapsto> [1, 2]]\<rparr>"
  have 1: "we_weights (WeightedEdges ?net (W_str ''weight'') 2) = W_str ''weight''"
    by (simp add: WeightedEdges_def)
  have 2: "we_weights (WeightedEdges net0 (W_str ''betweenness'') 2) = W_str ''betweenness''"
    by (simp add: WeightedEdges_def)
  have 3: "we_weights (WeightedEdges net0 (W_str ''foo'') 2) = W_str ''foo''"
    by (simp add: WeightedEdges_def)
  have 4: "we_weights (WeightedEdges ragged_net (W_str ''foo'') 2) = W_str ''foo''"
    by (simp add: WeightedEdges_def)
  have h0: "homogeneous (map points (edge_data net0))" "homogeneous (map points (edge_data ?net))"
    by (simp_all add: homogeneous_def net0_def)
  show ?thesis
    using named_weights_resolution [OF 1, of "[1, 2]" example_cut]
      named_weights_resolution [OF 2, of "[]" example_cut]
      named_weights_resolution [OF 3, of "[]" example_cut]
      named_weights_resolution [OF 4, of "[]" example_cut]
      h0 not_homogeneous_ragged
    by (simp add: WeightedEdges_def) (simp add: net0_def)
qed

text \<open>
  Claim C9, as stated, fails: a NumPy array of strings is present and is not a numeric
  array, yet the check of line 203 lets it through (its type is \<open>np.ndarray\<close>), and the
  exception comes from \<open>pandas.cut\<close>.
\<close>

theorem string_array_passes_type_check:
  "raised (WeightedEdges_prepare_data example_cut
      (WeightedEdges net0 (W_ndarray_str [''a'', ''b'']) 2)) \<noteq> Some InvalidWeightsType
   \<and> raised (WeightedEdges_prepare_data example_cut
      (WeightedEdges net0 (W_ndarray_str [''a'', ''b'']) 2)) = Some (CutError ''TypeError'')"
proof -
  have "homogeneous (map points (edge_data (we_network
      (WeightedEdges net0 (W_ndarray_str [''a'', ''b'']) 2))))"
    using homogeneous_net0 by (simp add: WeightedEdges_def)
  then show ?thesis
    by (simp add: WeightedEdges_prepare_data_stacked)
       (simp add: WeightedEdges_def resolve_weights_def raised_def)
qed

text \<open>
  Claim C9, amended. Once the lines have been made into an array and the weights are
  resolved and present, \<open>prepare_data\<close> raises \<open>InvalidWeightsType\<close> exactly when they are
  not a NumPy array (of whatever content).
\<close>

theorem weights_not_ndarray_raises:
  assumes "homogeneous (map points (edge_data (we_network s)))"
    and "resolve_weights (we_network s) (we_weights s) = Inr (net, w)"
    and "w \<noteq> W_None"
  shows "raised (WeightedEdges_prepare_data cutf s) = Some InvalidWeightsType
           \<longleftrightarrow> type_of_weights w \<noteq> Type_ndarray"
  using assms(2) assms(3)
  unfolding WeightedEdges_prepare_data_stacked [OF assms(1)]
  by (auto simp: raised_def split: sum.splits prod.splits dest: pd_cut_error)

theorem weights_not_ndarray_raises_witness:
  "homogeneous (map points (edge_data net0))
   \<and> resolve_weights (we_network (WeightedEdges net0 (W_list [1, 2]) 2))
      (we_weights (WeightedEdges net0 (W_list [1, 2]) 2)) = Inr (net0, W_list [1, 2])
   \<and> W_list [1, 2] \<noteq> W_None
   \<and> type_of_weights (W_list [1, 2]) \<noteq> Type_ndarray
   \<and> raised (WeightedEdges_prepare_data example_cut (WeightedEdges net0 (W_list [1, 2]) 2))
        = Some InvalidWeightsType"
proof -
  have h: "homogeneous (map points (edge_data (we_network (WeightedEdges net0 (W_list [1, 2]) 2))))"
    using homogeneous_net0 by (simp add: WeightedEdges_def)
  have r: "resolve_weights (we_network (WeightedEdges net0 (W_list [1, 2]) 2))
      (we_weights (WeightedEdges net0 (W_list [1, 2]) 2)) = Inr (net0, W_list [1, 2])"
    by (simp add: WeightedEdges_def resolve_weights_def)
  have n: "W_list [1, 2] \<noteq> W_None" by simp
  show ?thesis
    using weights_not_ndarray_raises [OF h r n, of example_cut] r homogeneous_net0 by simp
qed

subsection \<open>Calling prepare_data twice\<close>

lemma PlainEdges_prepare_data_idem:
  assumes "PlainEdges_prepare_data s = Inr s'"
  shows "PlainEdges_prepare_data s' = Inr s'"
  using assms by (auto simp: PlainEdges_prepare_data_cases split: if_splits)

lemma WeightedEdges_prepare_data_idem:
  assumes "WeightedEdges_prepare_data cutf s = Inr s'"
  shows "WeightedEdges_prepare_data cutf s' = Inr s'"
proof -
  have h: "homogeneous (map points (edge_data (we_network s)))"
    using assms by (rule contrapos_pp) (simp add: WeightedEdges_prepare_data_ragged)
  note run = assms [unfolded WeightedEdges_prepare_data_stacked [OF h]]
  obtain net w where r: "resolve_weights (we_network s) (we_weights s) = Inr (net, w)"
    using run by (cases "resolve_weights (we_network s) (we_weights s)") auto
  have ok: "\<not> (w \<noteq> W_None \<and> type_of_weights w \<noteq> Type_ndarray)"
    using run r by (auto split: if_splits)
  obtain groups bins where c: "pd_cut cutf w (we_k s) = Inr (groups, bins)"
    using run r ok by (cases "pd_cut cutf w (we_k s)") auto
  have s': "s' = s\<lparr>we_lines := Some (map points (edge_data (we_network s))),
                    we_network := net, we_bins := Some bins, we_line_groups := Some groups\<rparr>"
    using run r ok c by auto
  have r': "resolve_weights net (we_weights s) = Inr (net, w)" "edge_data net = edge_data (we_network s)"
    using resolve_weights_again [OF r] by auto
  have h': "homogeneous (map points (edge_data (we_network s')))"
    using h r'(2) by (simp add: s')
  show ?thesis
    unfolding WeightedEdges_prepare_data_stacked [OF h']
    using r' ok c by (auto simp: s')
qed

text \<open>
  Claim C4. \<open>CommunityGradient\<close> and \<open>ODGradient\<close> append to the collections made by
  the constructor: after two calls in a row the group (A,B) of a one-edge network holds
  two curves, and the shared collection of \<open>ODGradient\<close> holds two curves, where one call
  leaves one.
\<close>

theorem gradient_prepare_twice_accumulates:
  "map_option (\<lambda>c. length (curves c))
     (community_links (state_after (CommunityGradient_prepare_data
        (CommunityGradient (net0\<lparr>edge_data := [ab_edge]\<rparr>) [''A'', ''B'']))) (''A'', ''B'')) = Some 1
   \<and> map_option (\<lambda>c. length (curves c))
     (community_links (state_after (twice CommunityGradient_prepare_data
        (CommunityGradient (net0\<lparr>edge_data := [ab_edge]\<rparr>) [''A'', ''B'']))) (''A'', ''B'')) = Some 2
   \<and> length (curves (colored_curves (state_after (ODGradient_prepare_data
        (ODGradient (net0\<lparr>edge_data := [straight_list_edge]\<rparr>) 3))))) = 1
   \<and> length (curves (colored_curves (state_after (twice ODGradient_prepare_data
        (ODGradient (net0\<lparr>edge_data := [straight_list_edge]\<rparr>) 3))))) = 2"
  by (simp add: CommunityGradient_prepare_data_def CommunityGradient_def twice_def state_after_def
      net0_def ab_edge_def np_getitem_def defaultdict_get_def add_curve_def ColoredCurveCollection_def
      ODGradient_prepare_data_def ODGradient_def linspace3 straight_list_edge_def)

subsection \<open>CommunityGradient: the groups\<close>

lemma defaultdict_get_upd:
  "defaultdict_get (m(k \<mapsto> c)) p = (if p = k then c else defaultdict_get m p)"
  by (simp add: defaultdict_get_def)

lemma cg_loop_ok:
  assumes "\<forall>e\<in>set es. community_pair cs e \<noteq> None"
  shows "\<exists>m'. cg_loop cs es m = Inr m' \<and>
     dom m' = dom m \<union> {p. \<exists>e\<in>set es. community_pair cs e = Some p} \<and>
     (\<forall>p. curves (defaultdict_get m' p) =
            curves (defaultdict_get m p) @ map points (filter (\<lambda>e. community_pair cs e = Some p) es))"
  using assms
proof (induction es arbitrary: m)
  case Nil
  then show ?case by simp
next
  case (Cons e es)
  from Cons.prems obtain a b where
    a: "np_getitem cs (fst (index_pair e)) = Inr a" and
    b: "np_getitem cs (snd (index_pair e)) = Inr b" and
    pr: "community_pair cs e = Some (a, b)"
    by (auto simp: community_pair_def split: sum.splits)
  let ?m1 = "m((a, b) \<mapsto> add_curve (defaultdict_get m (a, b)) (points e) 1)"
  from Cons.prems have "\<forall>e\<in>set es. community_pair cs e \<noteq> None" by simp
  from Cons.IH [OF this, of ?m1] obtain m' where
    run: "cg_loop cs es ?m1 = Inr m'" and
    d: "dom m' = dom ?m1 \<union> {p. \<exists>e\<in>set es. community_pair cs e = Some p}" and
    c: "\<forall>p. curves (defaultdict_get m' p) =
            curves (defaultdict_get ?m1 p) @ map points (filter (\<lambda>e. community_pair cs e = Some p) es)"
    by blast
  have 1: "cg_loop cs (e # es) m = Inr m'"
    using a b run by simp
  have 2: "dom m' = dom m \<union> {p. \<exists>e\<in>set (e # es). community_pair cs e = Some p}"
    using d pr by auto
  have 3: "\<forall>p. curves (defaultdict_get m' p) =
            curves (defaultdict_get m p) @ map points (filter (\<lambda>e. community_pair cs e = Some p) (e # es))"
    using c pr by (auto simp: defaultdict_get_upd add_curve_def)
  show ?case using 1 2 3 by blast
qed

lemma sum_filter_lengths:
  assumes "finite P"
  shows "(\<Sum>p\<in>P. length (filter (\<lambda>e. f e = Some p) es)) = length (filter (\<lambda>e. f e \<in> Some ` P) es)"
proof (induction es)
  case Nil
  then show ?case by simp
next
  case (Cons e es)
  have "(\<Sum>p\<in>P. length (filter (\<lambda>e. f e = Some p) (e # es))) =
        (\<Sum>p\<in>P. (if f e = Some p then 1 else 0) + length (filter (\<lambda>e. f e = Some p) es))"
    by (rule sum.cong) auto
  also have "\<dots> = (\<Sum>p\<in>P. (if f e = Some p then 1 else 0)) + (\<Sum>p\<in>P. length (filter (\<lambda>e. f e = Some p) es))"
    by (simp add: sum.distrib)
  also have "(\<Sum>p\<in>P. (if f e = Some p then 1 else 0)) = (if f e \<in> Some ` P then (1::nat) else 0)"
  proof (cases "f e")
    case None
    then show ?thesis by auto
  next
    case (Some q)
    have "(\<Sum>p\<in>P. (if Some q = Some p then 1 else 0)) = (\<Sum>p\<in>P. (if q = p then (1::nat) else 0))"
      by (rule sum.cong) auto
    also have "\<dots> = (if q \<in> P then 1 else 0)"
      using assms by (simp add: sum.delta')
    finally show ?thesis using Some by auto
  qed
  finally show ?case using Cons.IH by simp
qed

lemma community_pair_ab: "community_pair [''A'', ''B''] ab_edge = Some (''A'', ''B'')"
  by (simp add: community_pair_def np_getitem_def ab_edge_def)

lemma community_pair_ba: "community_pair [''A'', ''B''] ba_edge = Some (''B'', ''A'')"
  by (simp add: community_pair_def np_getitem_def ba_edge_def)

lemma cg_total_curves:
  assumes "\<forall>e\<in>set es. community_pair cs e \<noteq> None"
    and "cg_loop cs es Map.empty = Inr m'"
  shows "(\<Sum>p\<in>dom m'. length (curves (the (m' p)))) = length es"
proof -
  let ?P = "{p. \<exists>e\<in>set es. community_pair cs e = Some p}"
  obtain m'' where
    run: "cg_loop cs es Map.empty = Inr m''" and
    d: "dom m'' = dom (Map.empty :: 'a \<times> 'a \<rightharpoonup> colored_curve_collection) \<union> ?P" and
    c: "\<forall>p. curves (defaultdict_get m'' p) =
            curves (defaultdict_get Map.empty p) @
            map points (filter (\<lambda>e. community_pair cs e = Some p) es)"
    using cg_loop_ok [OF assms(1), of Map.empty] by blast
  have m: "m'' = m'" using run assms(2) by simp
  have fin: "finite ?P"
  proof -
    have "?P \<subseteq> the ` (community_pair cs ` set es)" by force
    then show ?thesis by (rule finite_subset) simp
  qed
  have dP: "dom m' = ?P" using d m by simp
  have "(\<Sum>p\<in>dom m'. length (curves (the (m' p)))) =
        (\<Sum>p\<in>?P. length (filter (\<lambda>e. community_pair cs e = Some p) es))"
  proof (rule sum.cong [OF dP])
    fix p assume "p \<in> ?P"
    then have "p \<in> dom m'" using dP by simp
    then obtain c' where c': "m' p = Some c'" by blast
    have "curves (defaultdict_get Map.empty p) = []"
      by (simp add: defaultdict_get_def ColoredCurveCollection_def)
    then have "curves (defaultdict_get m' p) =
        map points (filter (\<lambda>e. community_pair cs e = Some p) es)"
      using c [rule_format, of p] m by simp
    then show "length (curves (the (m' p))) =
        length (filter (\<lambda>e. community_pair cs e = Some p) es)"
      using c' by (simp add: defaultdict_get_def)
  qed
  also have "\<dots> = length (filter (\<lambda>e. community_pair cs e \<in> Some ` ?P) es)"
    by (rule sum_filter_lengths [OF fin])
  also have "filter (\<lambda>e. community_pair cs e \<in> Some ` ?P) es = es"
  proof -
    have "\<And>e. e \<in> set es \<Longrightarrow> community_pair cs e \<in> Some ` ?P"
    proof -
      fix e assume e: "e \<in> set es"
      then obtain q where "community_pair cs e = Some q" using assms(1) by auto
      then show "community_pair cs e \<in> Some ` ?P" using e by auto
    qed
    then show ?thesis by (simp add: filter_id_conv)
  qed
  finally show ?thesis .
qed

text \<open>
  Claim C6. On a newly constructed \<open>CommunityGradient\<close> whose edges all have their
  indices inside \<open>node_communities\<close>, \<open>prepare_data\<close> returns; its group keys are the
  ordered community pairs of the edges, and the group of a pair holds the geometries of
  the edges with exactly that ordered pair, in order, hence as many curves as there are
  such edges.
\<close>

theorem community_groups:
  assumes "\<forall>e\<in>set (edge_data net). community_pair cs e \<noteq> None"
  shows "\<exists>s'. CommunityGradient_prepare_data (CommunityGradient net cs) = Inr s' \<and>
     dom (community_links s') = {p. \<exists>e\<in>set (edge_data net). community_pair cs e = Some p} \<and>
     (\<forall>p c. community_links s' p = Some c \<longrightarrow>
        curves c = map points (filter (\<lambda>e. community_pair cs e = Some p) (edge_data net)) \<and>
        length (curves c) = length (filter (\<lambda>e. community_pair cs e = Some p) (edge_data net)))"
proof -
  obtain m' where
    run: "cg_loop cs (edge_data net) Map.empty = Inr m'" and
    d: "dom m' = dom (Map.empty :: 'a \<times> 'a \<rightharpoonup> colored_curve_collection) \<union>
          {p. \<exists>e\<in>set (edge_data net). community_pair cs e = Some p}" and
    c: "\<forall>p. curves (defaultdict_get m' p) =
            curves (defaultdict_get Map.empty p) @
            map points (filter (\<lambda>e. community_pair cs e = Some p) (edge_data net))"
    using cg_loop_ok [OF assms, of Map.empty] by blast
  let ?s' = "(CommunityGradient net cs)\<lparr>community_links := m'\<rparr>"
  have 1: "CommunityGradient_prepare_data (CommunityGradient net cs) = Inr ?s'"
    using run by (simp add: CommunityGradient_prepare_data_def CommunityGradient_def)
  have 2: "dom (community_links ?s') = {p. \<exists>e\<in>set (edge_data net). community_pair cs e = Some p}"
    using d by simp
  have 3: "\<forall>p c. community_links ?s' p = Some c \<longrightarrow>
        curves c = map points (filter (\<lambda>e. community_pair cs e = Some p) (edge_data net))"
  proof (intro allI impI)
    fix p c assume "community_links ?s' p = Some c"
    then have "defaultdict_get m' p = c" by (simp add: defaultdict_get_def)
    moreover have "curves (defaultdict_get Map.empty p) = []"
      by (simp add: defaultdict_get_def ColoredCurveCollection_def)
    ultimately show "curves c = map points (filter (\<lambda>e. community_pair cs e = Some p) (edge_data net))"
      using c [rule_format, of p] by simp
  qed
  show ?thesis
    using 1 2 3 by (intro exI [of _ ?s']) simp
qed

theorem community_groups_witness:
  "community_pair [''A'', ''B''] ab_edge = Some (''A'', ''B'')
   \<and> community_pair [''A'', ''B''] ba_edge = Some (''B'', ''A'')
   \<and> (\<exists>s'. CommunityGradient_prepare_data
          (CommunityGradient (net0\<lparr>edge_data := [ab_edge, ba_edge]\<rparr>) [''A'', ''B'']) = Inr s' \<and>
        dom (community_links s') = {(''A'', ''B''), (''B'', ''A'')} \<and>
        map_option (\<lambda>c. length (curves c)) (community_links s' (''A'', ''B'')) = Some 1 \<and>
        map_option (\<lambda>c. length (curves c)) (community_links s' (''B'', ''A'')) = Some 1)"
proof -
  let ?net = "net0\<lparr>edge_data := [ab_edge, ba_edge]\<rparr>"
  have h: "\<forall>e\<in>set (edge_data ?net). community_pair [''A'', ''B''] e \<noteq> None"
    by (simp add: community_pair_ab community_pair_ba)
  obtain s' where
    run: "CommunityGradient_prepare_data (CommunityGradient ?net [''A'', ''B'']) = Inr s'" and
    d: "dom (community_links s') =
          {p. \<exists>e\<in>set (edge_data ?net). community_pair [''A'', ''B''] e = Some p}" and
    c: "\<forall>p c. community_links s' p = Some c \<longrightarrow>
          length (curves c) =
          length (filter (\<lambda>e. community_pair [''A'', ''B''] e = Some p) (edge_data ?net))"
    using community_groups [OF h] by blast
  have d': "dom (community_links s') = {(''A'', ''B''), (''B'', ''A'')}"
    unfolding d by (auto simp: community_pair_ab community_pair_ba)
  then obtain c1 c2 where
    c1: "community_links s' (''A'', ''B'') = Some c1" and
    c2: "community_links s' (''B'', ''A'') = Some c2"
    by (metis domD insertCI)
  have "length (curves c1) = 1"
    using c [rule_format, OF c1] by (simp add: community_pair_ab community_pair_ba)
  moreover have "length (curves c2) = 1"
    using c [rule_format, OF c2] by (simp add: community_pair_ab community_pair_ba)
  ultimately show ?thesis
    using run d' c1 c2 by (simp add: community_pair_ab community_pair_ba)
qed

subsection \<open>What an exception leaves behind\<close>

lemma np_getitem_error: "np_getitem xs i = Inl err \<Longrightarrow> err = IndexError"
  by (simp add: np_getitem_def split: if_splits)

lemma cg_loop_Inl:
  assumes "cg_loop cs es m = Inl (err, m')"
  shows "\<exists>pre e post. es = pre @ e # post \<and>
     (\<forall>e'\<in>set pre. community_pair cs e' \<noteq> None) \<and> community_pair cs e = None \<and>
     cg_loop cs pre m = Inr m' \<and> err = IndexError"
  using assms
proof (induction es arbitrary: m)
  case Nil
  then show ?case by simp
next
  case (Cons e es)
  show ?case
  proof (cases "community_pair cs e")
    case None
    then have "err = IndexError \<and> m' = m"
      using Cons.prems
      by (auto simp: community_pair_def split: sum.splits dest: np_getitem_error)
    then have "e # es = [] @ e # es \<and> (\<forall>e'\<in>set []. community_pair cs e' \<noteq> None) \<and>
        community_pair cs e = None \<and> cg_loop cs [] m = Inr m' \<and> err = IndexError"
      using None by simp
    then show ?thesis by blast
  next
    case (Some p)
    then obtain a b where
      a: "np_getitem cs (fst (index_pair e)) = Inr a" and
      b: "np_getitem cs (snd (index_pair e)) = Inr b"
      by (auto simp: community_pair_def split: sum.splits)
    let ?m1 = "m((a, b) \<mapsto> add_curve (defaultdict_get m (a, b)) (points e) 1)"
    have "cg_loop cs es ?m1 = Inl (err, m')"
      using Cons.prems a b by simp
    from Cons.IH [OF this] obtain pre e0 post where
      es: "es = pre @ e0 # post" and
      ok: "\<forall>e'\<in>set pre. community_pair cs e' \<noteq> None" and
      bad: "community_pair cs e0 = None" and
      run: "cg_loop cs pre ?m1 = Inr m'" and
      err: "err = IndexError"
      by blast
    have "e # es = (e # pre) @ e0 # post" using es by simp
    moreover have "\<forall>e'\<in>set (e # pre). community_pair cs e' \<noteq> None" using ok Some by simp
    moreover have "cg_loop cs (e # pre) m = Inr m'" using run a b by simp
    ultimately show ?thesis using bad err by blast
  qed
qed

text \<open>
  Claim C3, as stated, fails: \<open>WeightedEdges.prepare_data\<close> assigns \<open>lines\<close> before it
  validates the weights, so after \<open>InvalidWeightsReference\<close> the instance holds the
  collected lines, where it held \<open>None\<close> before the call.
\<close>

theorem weighted_error_keeps_lines:
  "raised (WeightedEdges_prepare_data example_cut
      (WeightedEdges (net0\<lparr>edge_data := [straight_list_edge]\<rparr>) (W_str ''foo'') 2))
     = Some InvalidWeightsReference
   \<and> we_lines (WeightedEdges (net0\<lparr>edge_data := [straight_list_edge]\<rparr>) (W_str ''foo'') 2) = None
   \<and> we_lines (state_after (WeightedEdges_prepare_data example_cut
        (WeightedEdges (net0\<lparr>edge_data := [straight_list_edge]\<rparr>) (W_str ''foo'') 2)))
     = Some [PyList [(0, 0), (10, 0)]]"
  by (simp add: WeightedEdges_prepare_data_def WeightedEdges_def resolve_weights_def Let_def
      net0_def straight_list_edge_def raised_def state_after_def np_array_of_lines_def
      homogeneous_def)

text \<open>
  Claim C3, amended. For every strategy, when \<open>prepare_data\<close> raises, the instance is as
  before the call but for what the statements before the \<open>raise\<close> have assigned.
  \<open>PlainEdges\<close>: \<open>lines\<close> holds the geometry of every edge. \<open>WeightedEdges\<close>: \<open>lines\<close> holds
  the geometry of every edge, \<open>bins\<close> and \<open>line_groups\<close> are as before the call, and after
  the error of the array conversion or either validation error nothing else has changed.
  \<open>CommunityGradient\<close>: \<open>community_links\<close> has gained the curves of the edges that precede
  the first edge with an index outside \<open>node_communities\<close>. \<open>ODGradient\<close>: unchanged.
\<close>

theorem state_left_by_exception:
  "(PlainEdges_prepare_data p = Inl (err1, p') \<longrightarrow>
      p' = p\<lparr>pe_lines := Some (map points (edge_data (pe_network p)))\<rparr>)
   \<and> (WeightedEdges_prepare_data cutf s = Inl (err2, s') \<longrightarrow>
      we_bins s' = we_bins s \<and> we_line_groups s' = we_line_groups s \<and>
      we_lines s' = Some (map points (edge_data (we_network s))) \<and>
      (err2 = InhomogeneousShape \<or> err2 = InvalidWeightsReference \<or> err2 = InvalidWeightsType \<longrightarrow>
         s' = s\<lparr>we_lines := Some (map points (edge_data (we_network s)))\<rparr>))
   \<and> (CommunityGradient_prepare_data c = Inl (err3, c') \<longrightarrow>
      c' = c\<lparr>community_links := community_links c'\<rparr> \<and>
      (\<exists>pre e post. edge_data (cg_network c) = pre @ e # post \<and>
         (\<forall>e'\<in>set pre. community_pair (node_communities c) e' \<noteq> None) \<and>
         community_pair (node_communities c) e = None \<and>
         cg_loop (node_communities c) pre (community_links c) = Inr (community_links c')))
   \<and> (ODGradient_prepare_data t = Inl (err4, t') \<longrightarrow> t' = t)"
proof (intro conjI impI)
  assume "PlainEdges_prepare_data p = Inl (err1, p')"
  then show "p' = p\<lparr>pe_lines := Some (map points (edge_data (pe_network p)))\<rparr>"
    by (auto simp: PlainEdges_prepare_data_cases split: if_splits)
next
  assume a: "WeightedEdges_prepare_data cutf s = Inl (err2, s')"
  show "we_bins s' = we_bins s" "we_line_groups s' = we_line_groups s"
    "we_lines s' = Some (map points (edge_data (we_network s)))"
    using WeightedEdges_prepare_data_Inl [OF a] by simp_all
  assume "err2 = InhomogeneousShape \<or> err2 = InvalidWeightsReference \<or> err2 = InvalidWeightsType"
  then show "s' = s\<lparr>we_lines := Some (map points (edge_data (we_network s)))\<rparr>"
    by (rule WeightedEdges_prepare_data_validation [OF a])
next
  assume a: "CommunityGradient_prepare_data c = Inl (err3, c')"
  then obtain m' where
    run: "cg_loop (node_communities c) (edge_data (cg_network c)) (community_links c) = Inl (err3, m')"
    and c': "c' = c\<lparr>community_links := m'\<rparr>"
    by (auto simp: CommunityGradient_prepare_data_def split: sum.splits prod.splits)
  have m': "community_links c' = m'" using c' by simp
  show "c' = c\<lparr>community_links := community_links c'\<rparr>"
    using c' by simp
  show "\<exists>pre e post. edge_data (cg_network c) = pre @ e # post \<and>
         (\<forall>e'\<in>set pre. community_pair (node_communities c) e' \<noteq> None) \<and>
         community_pair (node_communities c) e = None \<and>
         cg_loop (node_communities c) pre (community_links c) = Inr (community_links c')"
    using cg_loop_Inl [OF run] unfolding m' by blast
next
  assume "ODGradient_prepare_data t = Inl (err4, t')"
  then show "t' = t"
    by (auto simp: ODGradient_prepare_data_def split: sum.splits)
qed

lemma community_pair_bad: "community_pair [''A'', ''B''] bad_index_edge = None"
  by (simp add: community_pair_def np_getitem_def bad_index_edge_def)

theorem state_left_by_exception_witness:
  "PlainEdges_prepare_data (PlainEdges ragged_net) =
     Inl (InhomogeneousShape,
          (PlainEdges ragged_net)\<lparr>pe_lines := Some (map points (edge_data ragged_net))\<rparr>)
   \<and> WeightedEdges_prepare_data example_cut
      (WeightedEdges (net0\<lparr>edge_data := [straight_list_edge]\<rparr>) (W_str ''foo'') 2)
     = Inl (InvalidWeightsReference,
            (WeightedEdges (net0\<lparr>edge_data := [straight_list_edge]\<rparr>) (W_str ''foo'') 2)
              \<lparr>we_lines := Some [PyList [(0, 0), (10, 0)]]\<rparr>)
   \<and> raised (CommunityGradient_prepare_data
        (CommunityGradient (net0\<lparr>edge_data := [ab_edge, bad_index_edge]\<rparr>) [''A'', ''B'']))
     = Some IndexError
   \<and> (\<exists>pre e post. [ab_edge, bad_index_edge] = pre @ e # post \<and>
        community_pair [''A'', ''B''] e = None \<and>
        cg_loop [''A'', ''B''] pre Map.empty =
          Inr (community_links (state_after (CommunityGradient_prepare_data
            (CommunityGradient (net0\<lparr>edge_data := [ab_edge, bad_index_edge]\<rparr>) [''A'', ''B''])))))
   \<and> map_option (\<lambda>c. length (curves c))
        (community_links (state_after (CommunityGradient_prepare_data
          (CommunityGradient (net0\<lparr>edge_data := [ab_edge, bad_index_edge]\<rparr>) [''A'', ''B''])))
          (''A'', ''B'')) = Some 1
   \<and> ODGradient_prepare_data (ODGradient net0 (- 1)) = Inl (LinspaceError, ODGradient net0 (- 1))"
proof -
  let ?p = "PlainEdges ragged_net"
  let ?s = "WeightedEdges (net0\<lparr>edge_data := [straight_list_edge]\<rparr>) (W_str ''foo'') 2"
  let ?c = "CommunityGradient (net0\<lparr>edge_data := [ab_edge, bad_index_edge]\<rparr>) [''A'', ''B'']"
  let ?t = "ODGradient net0 (- 1)"
  have p: "PlainEdges_prepare_data ?p =
      Inl (InhomogeneousShape, state_after (PlainEdges_prepare_data ?p))"
    using not_homogeneous_ragged
    by (simp add: PlainEdges_prepare_data_cases PlainEdges_def state_after_def)
  have w: "WeightedEdges_prepare_data example_cut ?s =
      Inl (InvalidWeightsReference, state_after (WeightedEdges_prepare_data example_cut ?s))"
    by (simp add: WeightedEdges_prepare_data_def WeightedEdges_def resolve_weights_def Let_def
        net0_def state_after_def np_array_of_lines_def homogeneous_def)
  have c: "CommunityGradient_prepare_data ?c =
      Inl (IndexError, state_after (CommunityGradient_prepare_data ?c))"
    by (simp add: CommunityGradient_prepare_data_def CommunityGradient_def net0_def
        ab_edge_def bad_index_edge_def np_getitem_def state_after_def)
  have o: "ODGradient_prepare_data ?t = Inl (LinspaceError, state_after (ODGradient_prepare_data ?t))"
    by (simp add: ODGradient_prepare_data_def ODGradient_def np_linspace_def state_after_def)
  note t = state_left_by_exception [of ?p InhomogeneousShape
      "state_after (PlainEdges_prepare_data ?p)" example_cut ?s InvalidWeightsReference
      "state_after (WeightedEdges_prepare_data example_cut ?s)" ?c IndexError
      "state_after (CommunityGradient_prepare_data ?c)" ?t LinspaceError
      "state_after (ODGradient_prepare_data ?t)"]
  have 1: "state_after (PlainEdges_prepare_data ?p) =
      ?p\<lparr>pe_lines := Some (map points (edge_data ragged_net))\<rparr>"
    using t p by (simp add: PlainEdges_def)
  have 2: "state_after (WeightedEdges_prepare_data example_cut ?s) =
      ?s\<lparr>we_lines := Some [PyList [(0, 0), (10, 0)]]\<rparr>"
    using t w by (simp add: WeightedEdges_def net0_def straight_list_edge_def)
  have 3: "\<exists>pre e post. [ab_edge, bad_index_edge] = pre @ e # post \<and>
        community_pair [''A'', ''B''] e = None \<and>
        cg_loop [''A'', ''B''] pre Map.empty =
          Inr (community_links (state_after (CommunityGradient_prepare_data ?c)))"
  proof -
    have "\<exists>pre e post. edge_data (cg_network ?c) = pre @ e # post \<and>
         (\<forall>e'\<in>set pre. community_pair (node_communities ?c) e' \<noteq> None) \<and>
         community_pair (node_communities ?c) e = None \<and>
         cg_loop (node_communities ?c) pre (community_links ?c) =
           Inr (community_links (state_after (CommunityGradient_prepare_data ?c)))"
      using t c by blast
    then show ?thesis
      by (simp add: CommunityGradient_def) blast
  qed
  have 4: "map_option (\<lambda>c. length (curves c))
        (community_links (state_after (CommunityGradient_prepare_data ?c)) (''A'', ''B'')) = Some 1"
    by (simp add: CommunityGradient_prepare_data_def CommunityGradient_def net0_def
        ab_edge_def bad_index_edge_def np_getitem_def state_after_def defaultdict_get_def
        add_curve_def ColoredCurveCollection_def)
  have 5: "state_after (ODGradient_prepare_data ?t) = ?t"
    using t o by simp
  have 6: "raised (CommunityGradient_prepare_data ?c) = Some IndexError"
    by (subst c) (simp add: raised_def)
  show ?thesis
    using p w o 1 2 3 4 5 6 by simp
qed

subsection \<open>The number of prepared lines\<close>

text \<open>
  Claim C7. After \<open>prepare_data\<close> the number of collected geometries is the number of
  edges of the network: for \<open>PlainEdges\<close> and \<open>WeightedEdges\<close> from any instance and
  whether the call returns or raises, for \<open>CommunityGradient\<close> (all groups together) and
  \<open>ODGradient\<close> from a newly constructed one.
\<close>

theorem prepared_line_count:
  "map_option length (pe_lines (state_after (PlainEdges_prepare_data p))) =
       Some (length (edge_data (pe_network p)))
   \<and> map_option length (we_lines (state_after (WeightedEdges_prepare_data cutf w))) =
       Some (length (edge_data (we_network w)))
   \<and> ((\<forall>e\<in>set (edge_data net). community_pair cs e \<noteq> None) \<longrightarrow>
        (\<exists>s'. CommunityGradient_prepare_data (CommunityGradient net cs) = Inr s' \<and>
           (\<Sum>p\<in>dom (community_links s'). length (curves (the (community_links s' p)))) =
             length (edge_data net)))
   \<and> (0 \<le> n \<longrightarrow>
        (\<exists>s'. ODGradient_prepare_data (ODGradient net' n) = Inr s' \<and>
           length (curves (colored_curves s')) = length (edge_data net')))"
proof (intro conjI impI)
  show "map_option length (pe_lines (state_after (PlainEdges_prepare_data p))) =
      Some (length (edge_data (pe_network p)))"
    by (simp add: PlainEdges_lines_after)
  show "map_option length (we_lines (state_after (WeightedEdges_prepare_data cutf w))) =
       Some (length (edge_data (we_network w)))"
    by (simp add: WeightedEdges_lines_after)
next
  assume h: "\<forall>e\<in>set (edge_data net). community_pair cs e \<noteq> None"
  obtain m' where run: "cg_loop cs (edge_data net) Map.empty = Inr m'"
    using cg_loop_ok [OF h, of Map.empty] by blast
  have "(\<Sum>p\<in>dom m'. length (curves (the (m' p)))) = length (edge_data net)"
    by (rule cg_total_curves [OF h run])
  then show "\<exists>s'. CommunityGradient_prepare_data (CommunityGradient net cs) = Inr s' \<and>
           (\<Sum>p\<in>dom (community_links s'). length (curves (the (community_links s' p)))) =
             length (edge_data net)"
    using run by (simp add: CommunityGradient_prepare_data_def CommunityGradient_def)
next
  assume n: "0 \<le> n"
  then obtain ts where "np_linspace 0 1 n = Inr ts"
    by (auto simp: np_linspace_def Let_def)
  then show "\<exists>s'. ODGradient_prepare_data (ODGradient net' n) = Inr s' \<and>
           length (curves (colored_curves s')) = length (edge_data net')"
    by (simp add: ODGradient_prepare_data_def ODGradient_def od_loop_curves ColoredCurveCollection_def)
qed

theorem prepared_line_count_witness:
  "community_pair [''A'', ''B''] ab_edge = Some (''A'', ''B'')
   \<and> community_pair [''A'', ''B''] ba_edge = Some (''B'', ''A'')
   \<and> (0::int) \<le> 3
   \<and> (\<exists>s'. CommunityGradient_prepare_data
          (CommunityGradient (net0\<lparr>edge_data := [ab_edge, ba_edge]\<rparr>) [''A'', ''B'']) = Inr s' \<and>
        (\<Sum>p\<in>dom (community_links s'). length (curves (the (community_links s' p)))) = 2)
   \<and> (\<exists>s'. ODGradient_prepare_data (ODGradient (net0\<lparr>edge_data := [ab_edge, ba_edge]\<rparr>) 3) = Inr s' \<and>
        length (curves (colored_curves s')) = 2)"
proof -
  let ?net = "net0\<lparr>edge_data := [ab_edge, ba_edge]\<rparr>"
  have h: "\<forall>e\<in>set (edge_data ?net). community_pair [''A'', ''B''] e \<noteq> None"
    by (simp add: community_pair_ab community_pair_ba)
  have n: "(0::int) \<le> 3" by simp
  note t = prepared_line_count [of "PlainEdges ?net" example_cut "WeightedEdges ?net W_None 2" ?net
      "[''A'', ''B'']" 3 ?net]
  have "\<exists>s'. CommunityGradient_prepare_data (CommunityGradient ?net [''A'', ''B'']) = Inr s' \<and>
      (\<Sum>p\<in>dom (community_links s'). length (curves (the (community_links s' p)))) =
        length (edge_data ?net)"
    using t h by blast
  moreover have "\<exists>s'. ODGradient_prepare_data (ODGradient ?net 3) = Inr s' \<and>
      length (curves (colored_curves s')) = length (edge_data ?net)"
    using t n by blast
  ultimately show ?thesis
    using n by (simp add: numeral_2_eq_2 community_pair_ab community_pair_ba)
qed

end
